theory Spec2Isabelle
  imports Main "HOL-Library.Word" "HOL-Library.AList"
begin

unbundle bit_operations_syntax

section \<open>Machine types, errors and the operating system\<close>

type_synonym byte = "8 word"
type_synonym u32 = "32 word"
type_synonym u64 = "64 word"

text \<open>
  Go's \<open>int64\<close> is a 64-bit word read through \<open>sint\<close>; the conversions
  \<open>uint64(x)\<close>, \<open>int64(x)\<close> keep the bits and \<open>uint32(x)\<close> is \<open>ucast\<close>.
\<close>

type_synonym i64 = "64 word"

text \<open>
  Errors of the operating system and of \<open>os.File\<close>: \<open>Errno n\<close> is a failure reported by
  the system, \<open>ErrClosed\<close> is \<open>os.ErrClosed\<close> and \<open>ErrNegativeOffset\<close> is the error of
  \<open>File.ReadAt\<close> at a negative offset.
\<close>

datatype oserror = Errno nat | ErrClosed | ErrNegativeOffset

text \<open>
  The error values the package handles. \<open>EOF\<close> is \<open>io.EOF\<close>, \<open>Errorf m\<close> is the value
  made by \<open>fmt.Errorf\<close> with message \<open>m\<close>, \<open>OSError e\<close> is an error of the operating
  system and \<open>ErrProto\<close> is a failure of the protobuf library. \<open>Panic\<close> stands for a
  run-time panic (slice bounds, nil dereference, index out of range): it is no error
  value in Go, it aborts every caller, so the places of the source that drop an error
  pass \<open>Panic\<close> on.
\<close>

datatype error = EOF | Errorf string | OSError oserror | ErrProto | Panic

text \<open>
  The world outside the process: the entries of the log's directory (file name and
  content) and the outcomes of the operating-system calls still to come. Every call that
  can fail takes the head of \<open>faults\<close>: \<open>None\<close> lets it succeed, \<open>Some n\<close> makes it fail
  with \<open>Errno n\<close>; an empty schedule means that no further call fails.
\<close>

record world =
  files :: "(string \<times> byte list) list"
  faults :: "nat option list"

definition oscall :: "world \<Rightarrow> oserror option \<times> world" where
  "oscall w = (case faults w of
                 [] \<Rightarrow> (None, w)
               | f # fs \<Rightarrow> (map_option Errno f, w\<lparr>faults := fs\<rparr>))"

definition content :: "world \<Rightarrow> string \<Rightarrow> byte list" where
  "content w name = (case map_of (files w) name of None \<Rightarrow> [] | Some bs \<Rightarrow> bs)"

text \<open>An open file: \<open>*os.File\<close>.\<close>

record osFile =
  fname :: string
  closed :: bool

text \<open>\<open>os.OpenFile(name, O_RDWR|O_CREATE[|O_APPEND], 0644)\<close>: creates a missing file.\<close>

definition os_OpenFile :: "world \<Rightarrow> string \<Rightarrow> (oserror + osFile) \<times> world" where
  "os_OpenFile w name =
     (case oscall w of
        (Some e, w1) \<Rightarrow> (Inl e, w1)
      | (None, w1) \<Rightarrow>
          (Inr \<lparr>fname = name, closed = False\<rparr>,
           (case map_of (files w1) name of
              None \<Rightarrow> w1\<lparr>files := AList.update name [] (files w1)\<rparr>
            | Some _ \<Rightarrow> w1)))"

text \<open>\<open>os.Stat(name)\<close>, of which the callers read \<open>Size()\<close> only.\<close>

definition os_Stat :: "world \<Rightarrow> string \<Rightarrow> (oserror + nat) \<times> world" where
  "os_Stat w name =
     (case oscall w of
        (Some e, w1) \<Rightarrow> (Inl e, w1)
      | (None, w1) \<Rightarrow>
          (case map_of (files w1) name of
             None \<Rightarrow> (Inl (Errno 2), w1)
           | Some bs \<Rightarrow> (Inr (length bs), w1)))"

text \<open>Resizing: a longer file is padded with zero bytes.\<close>

definition resize :: "nat \<Rightarrow> byte list \<Rightarrow> byte list" where
  "resize n bs = take n bs @ replicate (n - length bs) 0"

text \<open>\<open>os.Truncate(name, size)\<close>.\<close>

definition os_Truncate :: "world \<Rightarrow> string \<Rightarrow> i64 \<Rightarrow> oserror option \<times> world" where
  "os_Truncate w name n =
     (case oscall w of
        (Some e, w1) \<Rightarrow> (Some e, w1)
      | (None, w1) \<Rightarrow>
          (if n <s 0 then (Some (Errno 22), w1)
           else case map_of (files w1) name of
             None \<Rightarrow> (Some (Errno 2), w1)
           | Some bs \<Rightarrow>
               (None, w1\<lparr>files := AList.update name (resize (unat n) bs) (files w1)\<rparr>)))"

text \<open>\<open>os.Remove(name)\<close>.\<close>

definition os_Remove :: "world \<Rightarrow> string \<Rightarrow> oserror option \<times> world" where
  "os_Remove w name =
     (case oscall w of
        (Some e, w1) \<Rightarrow> (Some e, w1)
      | (None, w1) \<Rightarrow>
          (case map_of (files w1) name of
             None \<Rightarrow> (Some (Errno 2), w1)
           | Some _ \<Rightarrow> (None, w1\<lparr>files := AList.delete name (files w1)\<rparr>)))"

text \<open>\<open>ioutil.ReadDir(dir)\<close>, of which the caller reads the names.\<close>

definition ioutil_ReadDir :: "world \<Rightarrow> (oserror + string list) \<times> world" where
  "ioutil_ReadDir w =
     (case oscall w of
        (Some e, w1) \<Rightarrow> (Inl e, w1)
      | (None, w1) \<Rightarrow> (Inr (map fst (files w1)), w1))"

text \<open>\<open>(*os.File).Write\<close> on a file opened with \<open>O_APPEND\<close>.\<close>

definition File_Write :: "world \<Rightarrow> osFile \<Rightarrow> byte list \<Rightarrow> oserror option \<times> world" where
  "File_Write w f p =
     (if closed f then (Some ErrClosed, w)
      else case oscall w of
        (Some e, w1) \<Rightarrow> (Some e, w1)
      | (None, w1) \<Rightarrow>
          (None, w1\<lparr>files := AList.update (fname f) (content w1 (fname f) @ p) (files w1)\<rparr>))"

text \<open>
  \<open>(*os.File).ReadAt(b, off)\<close> with \<open>len(b) = n\<close>: an error unless all \<open>n\<close> bytes are there.
\<close>

definition File_ReadAt :: "world \<Rightarrow> osFile \<Rightarrow> nat \<Rightarrow> i64 \<Rightarrow> (error + byte list) \<times> world" where
  "File_ReadAt w f n off =
     (if closed f then (Inl (OSError ErrClosed), w)
      else if off <s 0 then (Inl (OSError ErrNegativeOffset), w)
      else if n = 0 then (Inr [], w)
      else case oscall w of
        (Some e, w1) \<Rightarrow> (Inl (OSError e), w1)
      | (None, w1) \<Rightarrow>
          (if unat off + n \<le> length (content w1 (fname f))
           then (Inr (take n (drop (unat off) (content w1 (fname f)))), w1)
           else (Inl EOF, w1)))"

definition File_Sync :: "world \<Rightarrow> osFile \<Rightarrow> oserror option \<times> world" where
  "File_Sync w f = (if closed f then (Some ErrClosed, w) else oscall w)"

definition File_Truncate :: "world \<Rightarrow> osFile \<Rightarrow> i64 \<Rightarrow> oserror option \<times> world" where
  "File_Truncate w f n =
     (if closed f then (Some ErrClosed, w)
      else case oscall w of
        (Some e, w1) \<Rightarrow> (Some e, w1)
      | (None, w1) \<Rightarrow>
          (if n <s 0 then (Some (Errno 22), w1)
           else case map_of (files w1) (fname f) of
             None \<Rightarrow> (None, w1)
           | Some bs \<Rightarrow>
               (None, w1\<lparr>files := AList.update (fname f) (resize (unat n) bs) (files w1)\<rparr>)))"

definition File_Close :: "world \<Rightarrow> osFile \<Rightarrow> oserror option \<times> world \<times> osFile" where
  "File_Close w f =
     (if closed f then (Some ErrClosed, w, f)
      else case oscall w of (e, w1) \<Rightarrow> (e, w1, f\<lparr>closed := True\<rparr>))"

subsection \<open>Byte order: \<open>encoding/binary.BigEndian\<close>\<close>

definition PutUint32 :: "u32 \<Rightarrow> byte list" where
  "PutUint32 v = [ucast (drop_bit 24 v), ucast (drop_bit 16 v), ucast (drop_bit 8 v), ucast v]"

definition PutUint64 :: "u64 \<Rightarrow> byte list" where
  "PutUint64 v = [ucast (drop_bit 56 v), ucast (drop_bit 48 v), ucast (drop_bit 40 v),
                  ucast (drop_bit 32 v), ucast (drop_bit 24 v), ucast (drop_bit 16 v),
                  ucast (drop_bit 8 v), ucast v]"

text \<open>The callers pass slices of exactly 4 and 8 bytes; a shorter slice would panic.\<close>

fun Uint32 :: "byte list \<Rightarrow> u32" where
  "Uint32 (b0 # b1 # b2 # b3 # _) =
     ucast b3 OR push_bit 8 (ucast b2) OR push_bit 16 (ucast b1) OR push_bit 24 (ucast b0)"
| "Uint32 _ = 0"

fun Uint64 :: "byte list \<Rightarrow> u64" where
  "Uint64 (b0 # b1 # b2 # b3 # b4 # b5 # b6 # b7 # _) =
     ucast b7 OR push_bit 8 (ucast b6) OR push_bit 16 (ucast b5) OR push_bit 24 (ucast b4)
     OR push_bit 32 (ucast b3) OR push_bit 40 (ucast b2) OR push_bit 48 (ucast b1)
     OR push_bit 56 (ucast b0)"
| "Uint64 _ = 0"

text \<open>
  A slice expression \<open>s[lo:hi]\<close> panics unless \<open>lo \<le> hi \<le> len(s)\<close>; \<open>slice\<close> reads it and
  \<open>slice_put\<close> writes \<open>bs\<close> at its start, as \<open>PutUint32(s[lo:hi], v)\<close> does (which
  panics when the slice is shorter than the value).
\<close>

definition slice :: "byte list \<Rightarrow> nat \<Rightarrow> nat \<Rightarrow> byte list option" where
  "slice s lo hi = (if lo \<le> hi \<and> hi \<le> length s then Some (take (hi - lo) (drop lo s)) else None)"

definition slice_put :: "byte list \<Rightarrow> nat \<Rightarrow> nat \<Rightarrow> byte list \<Rightarrow> byte list option" where
  "slice_put s lo hi bs =
     (if lo \<le> hi \<and> hi \<le> length s \<and> length bs \<le> hi - lo
      then Some (take lo s @ bs @ drop (lo + length bs) s) else None)"

section \<open>The store (store.go)\<close>

definition lenWidth :: nat where
  "lenWidth = 8"

text \<open>
  \<open>bufio.Writer\<close> over the store's file: the bytes not yet written to the file, and the
  error of a failed write, which every later write and flush returns again.
\<close>

record Writer =
  pending :: "byte list"
  werr :: "oserror option"

definition buf_Write :: "world \<Rightarrow> Writer \<Rightarrow> byte list \<Rightarrow> (error + nat) \<times> world \<times> Writer" where
  "buf_Write w b p =
     (case werr b of
        Some e \<Rightarrow> (Inl (OSError e), w, b)
      | None \<Rightarrow>
          (case oscall w of
             (Some e, w1) \<Rightarrow> (Inl (OSError e), w1, b\<lparr>werr := Some e\<rparr>)
           | (None, w1) \<Rightarrow> (Inr (length p), w1, b\<lparr>pending := pending b @ p\<rparr>)))"

definition buf_Flush :: "world \<Rightarrow> osFile \<Rightarrow> Writer \<Rightarrow> oserror option \<times> world \<times> Writer" where
  "buf_Flush w f b =
     (case werr b of
        Some e \<Rightarrow> (Some e, w, b)
      | None \<Rightarrow>
          (if pending b = [] then (None, w, b)
           else case File_Write w f (pending b) of
             (Some e, w1) \<Rightarrow> (Some e, w1, b\<lparr>werr := Some e\<rparr>)
           | (None, w1) \<Rightarrow> (None, w1, b\<lparr>pending := []\<rparr>)))"

record store =
  File :: osFile
  store_size :: u64
  buf :: Writer

definition newStore :: "world \<Rightarrow> osFile \<Rightarrow> (error + store) \<times> world" where
  "newStore w f =
     (case os_Stat w (fname f) of
        (Inl e, w1) \<Rightarrow> (Inl (OSError e), w1)
      | (Inr fi, w1) \<Rightarrow>
          (Inr \<lparr>File = f, store_size = of_nat fi, buf = \<lparr>pending = [], werr = None\<rparr>\<rparr>, w1))"

text \<open>\<open>store.Append\<close> returns \<open>(bytesWritten, pos)\<close> or the error; the store is updated in place.\<close>

definition store_Append ::
  "world \<Rightarrow> store \<Rightarrow> byte list \<Rightarrow> (error + u64 \<times> u64) \<times> world \<times> store" where
  "store_Append w s toPersist =
     (let pos = store_size s in
      case buf_Write w (buf s) (PutUint64 (of_nat (length toPersist))) of
        (Inl e, w1, b1) \<Rightarrow> (Inl e, w1, s\<lparr>buf := b1\<rparr>)
      | (Inr _, w1, b1) \<Rightarrow>
          (case buf_Write w1 b1 toPersist of
             (Inl e, w2, b2) \<Rightarrow> (Inl e, w2, s\<lparr>buf := b2\<rparr>)
           | (Inr numBytes, w2, b2) \<Rightarrow>
               (let numBytes' = numBytes + lenWidth in
                (Inr (of_nat numBytes', pos), w2,
                 s\<lparr>buf := b2, store_size := store_size s + of_nat numBytes'\<rparr>))))"

text \<open>\<open>make([]byte, n)\<close> panics beyond the allocation limit of the runtime.\<close>

definition maxAlloc :: nat where
  "maxAlloc = 2 ^ 48"

definition store_Read :: "world \<Rightarrow> store \<Rightarrow> u64 \<Rightarrow> (error + byte list) \<times> world \<times> store" where
  "store_Read w s pos =
     (case buf_Flush w (File s) (buf s) of
        (Some e, w1, b1) \<Rightarrow> (Inl (OSError e), w1, s\<lparr>buf := b1\<rparr>)
      | (None, w1, b1) \<Rightarrow>
          (case File_ReadAt w1 (File s) lenWidth pos of
             (Inl e, w2) \<Rightarrow> (Inl e, w2, s\<lparr>buf := b1\<rparr>)
           | (Inr sz, w2) \<Rightarrow>
               (if maxAlloc < unat (Uint64 sz) then (Inl Panic, w2, s\<lparr>buf := b1\<rparr>)
                else case File_ReadAt w2 (File s) (unat (Uint64 sz)) (pos + of_nat lenWidth) of
                  (Inl e, w3) \<Rightarrow> (Inl e, w3, s\<lparr>buf := b1\<rparr>)
                | (Inr bytes, w3) \<Rightarrow> (Inr bytes, w3, s\<lparr>buf := b1\<rparr>))))"

definition store_Close :: "world \<Rightarrow> store \<Rightarrow> error option \<times> world \<times> store" where
  "store_Close w s =
     (case buf_Flush w (File s) (buf s) of
        (Some e, w1, b1) \<Rightarrow> (Some (OSError e), w1, s\<lparr>buf := b1\<rparr>)
      | (None, w1, b1) \<Rightarrow>
          (case File_Close w1 (File s) of
             (e, w2, f2) \<Rightarrow> (map_option OSError e, w2, s\<lparr>buf := b1, File := f2\<rparr>)))"

definition store_Name :: "store \<Rightarrow> string" where
  "store_Name s = fname (File s)"

section \<open>The index (index.go)\<close>

definition offWidth :: u64 where
  "offWidth = 4"

definition posWidth :: u64 where
  "posWidth = 8"

definition entWidth :: u64 where
  "entWidth = offWidth + posWidth"

text \<open>
  \<open>Modelled from the spec:\<close> the declaration of \<open>Config\<close> (config.go) is not among the
  sources. Section 6 of the specification gives its three options, which the source
  reads as \<open>c.Segment.MaxStoreBytes\<close>, \<open>c.Segment.MaxIndexBytes\<close> and
  \<open>c.Segment.InitialOffset\<close>, all \<open>uint64\<close>.
\<close>

record Config =
  MaxStoreBytes :: u64
  MaxIndexBytes :: u64
  InitialOffset :: u64

text \<open>
  The index holds its file and the bytes of the memory mapping. The mapping is shared
  with the file; the model keeps the mapped bytes in the index and writes them to the
  file at \<open>Sync\<close>. The package reads an index file through its mapping only, so the two
  views differ only if one file is mapped twice at the same time.
\<close>

record index =
  index_file :: osFile
  mmap :: "byte list"
  index_size :: u64

text \<open>\<open>gommap.Map\<close> maps the whole file; mapping no bytes is an error of \<open>mmap(2)\<close>.\<close>

definition gommap_Map :: "world \<Rightarrow> osFile \<Rightarrow> (oserror + byte list) \<times> world" where
  "gommap_Map w f =
     (case oscall w of
        (Some e, w1) \<Rightarrow> (Inl e, w1)
      | (None, w1) \<Rightarrow>
          (if closed f then (Inl (Errno 9), w1)
           else if content w1 (fname f) = [] then (Inl (Errno 22), w1)
           else (Inr (content w1 (fname f)), w1)))"

definition mmap_Sync :: "world \<Rightarrow> osFile \<Rightarrow> byte list \<Rightarrow> oserror option \<times> world" where
  "mmap_Sync w f m =
     (case oscall w of
        (Some e, w1) \<Rightarrow> (Some e, w1)
      | (None, w1) \<Rightarrow>
          (case map_of (files w1) (fname f) of
             None \<Rightarrow> (None, w1)
           | Some bs \<Rightarrow>
               (None, w1\<lparr>files := AList.update (fname f) (m @ drop (length m) bs) (files w1)\<rparr>)))"

definition newIndex :: "world \<Rightarrow> osFile \<Rightarrow> Config \<Rightarrow> (error + index) \<times> world" where
  "newIndex w f c =
     (case os_Stat w (fname f) of
        (Inl e, w1) \<Rightarrow> (Inl (OSError e), w1)
      | (Inr fi, w1) \<Rightarrow>
          (case os_Truncate w1 (fname f) (MaxIndexBytes c) of
             (Some e, w2) \<Rightarrow> (Inl (OSError e), w2)
           | (None, w2) \<Rightarrow>
               (case gommap_Map w2 f of
                  (Inl e, w3) \<Rightarrow> (Inl (OSError e), w3)
                | (Inr m, w3) \<Rightarrow> (Inr \<lparr>index_file = f, mmap = m, index_size = of_nat fi\<rparr>, w3))))"

definition index_Close :: "world \<Rightarrow> index \<Rightarrow> error option \<times> world \<times> index" where
  "index_Close w i =
     (case mmap_Sync w (index_file i) (mmap i) of
        (Some e, w1) \<Rightarrow> (Some (OSError e), w1, i)
      | (None, w1) \<Rightarrow>
          (case File_Sync w1 (index_file i) of
             (Some e, w2) \<Rightarrow> (Some (OSError e), w2, i)
           | (None, w2) \<Rightarrow>
               (case File_Truncate w2 (index_file i) (index_size i) of
                  (Some e, w3) \<Rightarrow> (Some (OSError e), w3, i)
                | (None, w3) \<Rightarrow>
                    (case File_Close w3 (index_file i) of
                       (e, w4, f4) \<Rightarrow> (map_option OSError e, w4, i\<lparr>index_file := f4\<rparr>)))))"

text \<open>\<open>index.Read(in)\<close> returns \<open>(out, pos)\<close> or the error.\<close>

definition index_Read :: "index \<Rightarrow> i64 \<Rightarrow> error + u32 \<times> u64" where
  "index_Read i n =
     (if index_size i = 0 then Inl EOF
      else
        let out = (if n = - 1 then ucast (index_size i div entWidth - 1) else ucast n) :: u32;
            pos = (ucast out :: u64) * entWidth
        in if index_size i < pos + entWidth then Inl EOF
           else case slice (mmap i) (unat pos) (unat (pos + offWidth)) of
             None \<Rightarrow> Inl Panic
           | Some b1 \<Rightarrow>
               (case slice (mmap i) (unat (pos + offWidth)) (unat (pos + entWidth)) of
                  None \<Rightarrow> Inl Panic
                | Some b2 \<Rightarrow> Inr (Uint32 b1, Uint64 b2)))"

text \<open>\<open>index.Write(off, pos)\<close> returns the error, if any, and the index as updated.\<close>

definition index_Write :: "index \<Rightarrow> u32 \<Rightarrow> u64 \<Rightarrow> error option \<times> index" where
  "index_Write i off pos =
     (if (of_nat (length (mmap i)) :: u64) < index_size i + entWidth then (Some EOF, i)
      else case slice_put (mmap i) (unat (index_size i)) (unat (index_size i + offWidth))
                  (PutUint32 off) of
        None \<Rightarrow> (Some Panic, i)
      | Some m1 \<Rightarrow>
          (case slice_put m1 (unat (index_size i + offWidth)) (unat (index_size i + entWidth))
                  (PutUint64 pos) of
             None \<Rightarrow> (Some Panic, i\<lparr>mmap := m1\<rparr>)
           | Some m2 \<Rightarrow> (None, i\<lparr>mmap := m2, index_size := index_size i + entWidth\<rparr>)))"

definition index_Name :: "index \<Rightarrow> string" where
  "index_Name i = fname (index_file i)"

section \<open>The segment (segment.go)\<close>

text \<open>
  \<open>Modelled from the spec:\<close> the record type \<open>api.Record\<close> and its protobuf
  serialisation are not among the sources. Section 3 of the specification: a record is an
  opaque byte payload plus an assignable 64-bit offset, with a deterministic byte
  serialisation and its inverse supplied from outside. The two functions are parameters
  of the model; \<open>None\<close> is their failure.
\<close>

record Record =
  Value :: "byte list"
  Offset :: u64

record proto =
  Marshal :: "Record \<Rightarrow> byte list option"
  Unmarshal :: "byte list \<Rightarrow> Record option"

record segment =
  store :: store
  index :: index
  baseOffset :: u64
  nextOffset :: u64
  config :: Config

text \<open>\<open>fmt.Sprintf("%d", n)\<close>.\<close>

definition digit_char :: "nat \<Rightarrow> char" where
  "digit_char d = ''0123456789'' ! d"

fun fmt_d :: "nat \<Rightarrow> string" where
  "fmt_d n = (if n < 10 then [digit_char n] else fmt_d (n div 10) @ [digit_char (n mod 10)])"

declare fmt_d.simps [simp del]

text \<open>
  The world is the log's directory, so \<open>path.Join(dir, name)\<close> is \<open>name\<close>: the
  argument \<open>dir\<close> of \<open>newSegment\<close> selects nothing in the model.
\<close>

definition store_path :: "u64 \<Rightarrow> string" where
  "store_path baseOff = fmt_d (unat baseOff) @ ''.store''"

definition index_path :: "u64 \<Rightarrow> string" where
  "index_path baseOff = fmt_d (unat baseOff) @ ''.index''"

definition newSegment :: "world \<Rightarrow> string \<Rightarrow> u64 \<Rightarrow> Config \<Rightarrow> (error + segment) \<times> world" where
  "newSegment w dir baseOff c =
     (case os_OpenFile w (store_path baseOff) of
        (Inl e, w1) \<Rightarrow> (Inl (OSError e), w1)
      | (Inr storeFile, w1) \<Rightarrow>
     (case newStore w1 storeFile of
        (Inl e, w2) \<Rightarrow> (Inl e, w2)
      | (Inr st, w2) \<Rightarrow>
     (case os_OpenFile w2 (index_path baseOff) of
        (Inl e, w3) \<Rightarrow> (Inl (OSError e), w3)
      | (Inr indexFile, w3) \<Rightarrow>
     (case newIndex w3 indexFile c of
        (Inl e, w4) \<Rightarrow> (Inl e, w4)
      | (Inr ix, w4) \<Rightarrow>
          (case index_Read ix (- 1) of
             Inl Panic \<Rightarrow> (Inl Panic, w4)
           | Inl _ \<Rightarrow>
               (Inr \<lparr>store = st, index = ix, baseOffset = baseOff,
                     nextOffset = baseOff, config = c\<rparr>, w4)
           | Inr (off, _) \<Rightarrow>
               (Inr \<lparr>store = st, index = ix, baseOffset = baseOff,
                     nextOffset = baseOff + ucast off + 1, config = c\<rparr>, w4))))))"

text \<open>
  \<open>segment.Append\<close> returns \<open>(offset, err)\<close>. It also sets \<open>record.Offset\<close> in the
  caller's record, which no operation of the package reads again. The second case is
  the source's \<open>return 0, nil\<close> after a failed store append.
\<close>

definition segment_Append ::
  "proto \<Rightarrow> world \<Rightarrow> segment \<Rightarrow> Record \<Rightarrow> (error + u64) \<times> world \<times> segment" where
  "segment_Append pb w s record =
     (let currOffset = nextOffset s;
          record' = record\<lparr>Offset := currOffset\<rparr>
      in case Marshal pb record' of
        None \<Rightarrow> (Inl ErrProto, w, s)
      | Some bytes \<Rightarrow>
          (case store_Append w (store s) bytes of
             (Inl e, w1, st1) \<Rightarrow> (Inr 0, w1, s\<lparr>store := st1\<rparr>)
           | (Inr (_, pos), w1, st1) \<Rightarrow>
               (let relativeOffset = (ucast (nextOffset s - baseOffset s) :: u32) in
                case index_Write (index s) relativeOffset pos of
                  (Some e, i1) \<Rightarrow> (Inl e, w1, s\<lparr>store := st1, index := i1\<rparr>)
                | (None, i1) \<Rightarrow>
                    (Inr currOffset, w1,
                     s\<lparr>store := st1, index := i1, nextOffset := nextOffset s + 1\<rparr>))))"

text \<open>
  \<open>segment.Read\<close>; when \<open>proto.Unmarshal\<close> fails the source returns its error together
  with the partly filled record, which the model drops.
\<close>

definition segment_Read ::
  "proto \<Rightarrow> world \<Rightarrow> segment \<Rightarrow> u64 \<Rightarrow> (error + Record) \<times> world \<times> segment" where
  "segment_Read pb w s off =
     (let relativeOffset = (off - baseOffset s :: i64) in
      case index_Read (index s) relativeOffset of
        Inl e \<Rightarrow> (Inl e, w, s)
      | Inr (_, pos) \<Rightarrow>
          (case store_Read w (store s) pos of
             (Inl e, w1, st1) \<Rightarrow> (Inl e, w1, s\<lparr>store := st1\<rparr>)
           | (Inr bytes, w1, st1) \<Rightarrow>
               (case Unmarshal pb bytes of
                  None \<Rightarrow> (Inl ErrProto, w1, s\<lparr>store := st1\<rparr>)
                | Some record \<Rightarrow> (Inr record, w1, s\<lparr>store := st1\<rparr>))))"

definition IsMaxed :: "segment \<Rightarrow> bool" where
  "IsMaxed s =
     (let isStoreMaxed = (MaxStoreBytes (config s) \<le> store_size (store s));
          isIndexMaxed = (MaxIndexBytes (config s) \<le> index_size (index s))
      in isStoreMaxed \<or> isIndexMaxed)"

definition segment_Close :: "world \<Rightarrow> segment \<Rightarrow> error option \<times> world \<times> segment" where
  "segment_Close w s =
     (case index_Close w (index s) of
        (Some e, w1, i1) \<Rightarrow> (Some e, w1, s\<lparr>index := i1\<rparr>)
      | (None, w1, i1) \<Rightarrow>
          (case store_Close w1 (store s) of
             (e, w2, st2) \<Rightarrow> (e, w2, s\<lparr>index := i1, store := st2\<rparr>)))"

definition segment_Remove :: "world \<Rightarrow> segment \<Rightarrow> error option \<times> world \<times> segment" where
  "segment_Remove w s =
     (case segment_Close w s of
        (Some e, w1, s1) \<Rightarrow> (Some e, w1, s1)
      | (None, w1, s1) \<Rightarrow>
          (case os_Remove w1 (index_Name (index s1)) of
             (Some e, w2) \<Rightarrow> (Some (OSError e), w2, s1)
           | (None, w2) \<Rightarrow>
               (case os_Remove w2 (store_Name (store s1)) of
                  (e, w3) \<Rightarrow> (map_option OSError e, w3, s1))))"

section \<open>The log (log.go)\<close>

text \<open>
  The log holds pointers to its segments, and \<open>activeSegment\<close> is one more pointer. The
  model keeps the segment objects in \<open>heap\<close>; a pointer is an index into it and \<open>None\<close>
  is \<open>nil\<close>. A new segment is allocated at the end of \<open>heap\<close>.
\<close>

record Log =
  Dir :: string
  Config :: Config
  activeSegment :: "nat option"
  segments :: "nat list"
  heap :: "segment list"

text \<open>\<open>path.Ext\<close>, \<open>strings.TrimSuffix\<close> and the value of \<open>strconv.ParseUint(s, 10, 0)\<close>.\<close>

definition path_Ext :: "string \<Rightarrow> string" where
  "path_Ext p =
     (let r = takeWhile (\<lambda>c. c \<noteq> CHR ''/'') (rev p)
      in if CHR ''.'' \<in> set r then CHR ''.'' # rev (takeWhile (\<lambda>c. c \<noteq> CHR ''.'') r) else [])"

definition strings_TrimSuffix :: "string \<Rightarrow> string \<Rightarrow> string" where
  "strings_TrimSuffix s suffix =
     (if length suffix \<le> length s \<and> drop (length s - length suffix) s = suffix
      then take (length s - length suffix) s else s)"

definition is_digit :: "char \<Rightarrow> bool" where
  "is_digit c = (48 \<le> (of_char c :: nat) \<and> (of_char c :: nat) \<le> 57)"

text \<open>
  The loop of \<open>ParseUint\<close>: a syntax error gives 0, a value out of range the largest
  \<open>uint64\<close>; the caller drops the error.
\<close>

fun parse_loop :: "string \<Rightarrow> nat \<Rightarrow> u64" where
  "parse_loop [] n = of_nat n"
| "parse_loop (c # cs) n =
     (if \<not> is_digit c then 0
      else if (2 ^ 64 - 1) div 10 + 1 \<le> n then - 1
      else let n1 = n * 10 + (of_char c - 48)
           in if 2 ^ 64 - 1 < n1 then - 1 else parse_loop cs n1)"

definition strconv_ParseUint :: "string \<Rightarrow> u64" where
  "strconv_ParseUint s = (if s = [] then 0 else parse_loop s 0)"

definition Log_newSegment :: "world \<Rightarrow> Log \<Rightarrow> u64 \<Rightarrow> error option \<times> world \<times> Log" where
  "Log_newSegment w lg off =
     (case newSegment w (Dir lg) off (Config lg) of
        (Inl e, w1) \<Rightarrow> (Some e, w1, lg)
      | (Inr seg, w1) \<Rightarrow>
          (None, w1,
           lg\<lparr>heap := heap lg @ [seg],
              segments := segments lg @ [length (heap lg)],
              activeSegment := Some (length (heap lg))\<rparr>))"

text \<open>The loop \<open>for i := 0; i < len(baseOffsets); i += 2\<close> of \<open>setup\<close>.\<close>

fun setup_loop :: "world \<Rightarrow> Log \<Rightarrow> u64 list \<Rightarrow> error option \<times> world \<times> Log" where
  "setup_loop w lg [] = (None, w, lg)"
| "setup_loop w lg [b] = Log_newSegment w lg b"
| "setup_loop w lg (b # _ # rest) =
     (case Log_newSegment w lg b of
        (Some e, w1, lg1) \<Rightarrow> (Some e, w1, lg1)
      | (None, w1, lg1) \<Rightarrow> setup_loop w1 lg1 rest)"

text \<open>
  \<open>setup\<close>. \<open>ReadDir\<close> lists the names in the order of the names; the source sorts the
  parsed numbers afterwards, so the order of the listing does not matter.
\<close>

definition Log_setup :: "world \<Rightarrow> Log \<Rightarrow> error option \<times> world \<times> Log" where
  "Log_setup w lg =
     (case ioutil_ReadDir w of
        (Inl e, w1) \<Rightarrow> (Some (OSError e), w1, lg)
      | (Inr names, w1) \<Rightarrow>
          (let baseOffsets =
                 sort (map (\<lambda>name. strconv_ParseUint (strings_TrimSuffix name (path_Ext name)))
                           names)
           in case setup_loop w1 lg baseOffsets of
             (Some e, w2, lg2) \<Rightarrow> (Some e, w2, lg2)
           | (None, w2, lg2) \<Rightarrow>
               (if segments lg2 = [] then Log_newSegment w2 lg2 (InitialOffset (Config lg2))
                else (None, w2, lg2))))"

text \<open>\<open>NewLog\<close> returns the log together with the error of \<open>setup\<close>.\<close>

definition NewLog :: "world \<Rightarrow> string \<Rightarrow> Config \<Rightarrow> error option \<times> world \<times> Log" where
  "NewLog w dir c =
     (let c1 = (if MaxStoreBytes c = 0 then c\<lparr>MaxStoreBytes := 1024\<rparr> else c);
          c2 = (if MaxIndexBytes c1 = 0 then c1\<lparr>MaxIndexBytes := 1024\<rparr> else c1)
      in Log_setup w \<lparr>Dir = dir, Config = c2, activeSegment = None, segments = [], heap = []\<rparr>)"

text \<open>
  \<open>Log.Append\<close> returns \<open>(offset, err)\<close>; where the source returns an offset together
  with an error (a failed roll), the model returns the error.
\<close>

definition Log_Append ::
  "proto \<Rightarrow> world \<Rightarrow> Log \<Rightarrow> Record \<Rightarrow> (error + u64) \<times> world \<times> Log" where
  "Log_Append pb w lg record =
     (case activeSegment lg of
        None \<Rightarrow> (Inl Panic, w, lg)
      | Some a \<Rightarrow>
          (case segment_Append pb w (heap lg ! a) record of
             (Inl e, w1, s1) \<Rightarrow> (Inl e, w1, lg\<lparr>heap := (heap lg)[a := s1]\<rparr>)
           | (Inr offset, w1, s1) \<Rightarrow>
               (let lg1 = lg\<lparr>heap := (heap lg)[a := s1]\<rparr>
                in if IsMaxed s1
                   then case Log_newSegment w1 lg1 (offset + 1) of
                     (Some e, w2, lg2) \<Rightarrow> (Inl e, w2, lg2)
                   | (None, w2, lg2) \<Rightarrow> (Inr offset, w2, lg2)
                   else (Inr offset, w1, lg1))))"

text \<open>The loop of \<open>Log.Read\<close>: the last segment of the list that holds the offset.\<close>

definition find_segment :: "Log \<Rightarrow> u64 \<Rightarrow> nat option" where
  "find_segment lg offset =
     foldl (\<lambda>s a. if baseOffset (heap lg ! a) \<le> offset \<and> offset < nextOffset (heap lg ! a)
                   then Some a else s)
           None (segments lg)"

definition out_of_range :: "u64 \<Rightarrow> error" where
  "out_of_range offset = Errorf (''offset out of range: '' @ fmt_d (unat offset))"

definition Log_Read ::
  "proto \<Rightarrow> world \<Rightarrow> Log \<Rightarrow> u64 \<Rightarrow> (error + Record) \<times> world \<times> Log" where
  "Log_Read pb w lg offset =
     (case find_segment lg offset of
        None \<Rightarrow> (Inl (out_of_range offset), w, lg)
      | Some a \<Rightarrow>
          (if nextOffset (heap lg ! a) \<le> offset then (Inl (out_of_range offset), w, lg)
           else case segment_Read pb w (heap lg ! a) offset of
             (r, w1, s1) \<Rightarrow> (r, w1, lg\<lparr>heap := (heap lg)[a := s1]\<rparr>)))"

fun close_loop :: "world \<Rightarrow> segment list \<Rightarrow> nat list \<Rightarrow> error option \<times> world \<times> segment list" where
  "close_loop w h [] = (None, w, h)"
| "close_loop w h (a # as) =
     (case segment_Close w (h ! a) of
        (Some e, w1, s1) \<Rightarrow> (Some e, w1, h[a := s1])
      | (None, w1, s1) \<Rightarrow> close_loop w1 (h[a := s1]) as)"

definition Log_Close :: "world \<Rightarrow> Log \<Rightarrow> error option \<times> world \<times> Log" where
  "Log_Close w lg =
     (case close_loop w (heap lg) (segments lg) of
        (e, w1, h1) \<Rightarrow> (e, w1, lg\<lparr>heap := h1\<rparr>))"

text \<open>\<open>LowestOffset\<close> and \<open>HighestOffset\<close> index the list: a panic when it is empty.\<close>

definition Log_LowestOffset :: "Log \<Rightarrow> error + u64" where
  "Log_LowestOffset lg =
     (case segments lg of [] \<Rightarrow> Inl Panic | a # _ \<Rightarrow> Inr (baseOffset (heap lg ! a)))"

definition Log_HighestOffset :: "Log \<Rightarrow> error + u64" where
  "Log_HighestOffset lg =
     (if segments lg = [] then Inl Panic
      else let offset = nextOffset (heap lg ! (segments lg ! (length (segments lg) - 1)))
           in if offset = 0 then Inr 0 else Inr (offset - 1))"

text \<open>
  The loop of \<open>Log.Truncate\<close>, with the list \<open>segs\<close> built so far. A failed \<open>Remove\<close>
  returns before the assignment to \<open>lg.segments\<close>.
\<close>

fun truncate_loop ::
  "world \<Rightarrow> segment list \<Rightarrow> u64 \<Rightarrow> nat list \<Rightarrow> nat list
     \<Rightarrow> (error + nat list) \<times> world \<times> segment list" where
  "truncate_loop w h lowest [] segs = (Inr segs, w, h)"
| "truncate_loop w h lowest (a # as) segs =
     (if nextOffset (h ! a) \<le> lowest + 1
      then case segment_Remove w (h ! a) of
        (Some e, w1, s1) \<Rightarrow> (Inl e, w1, h[a := s1])
      | (None, w1, s1) \<Rightarrow> truncate_loop w1 (h[a := s1]) lowest as segs
      else truncate_loop w h lowest as (segs @ [a]))"

definition Log_Truncate :: "world \<Rightarrow> Log \<Rightarrow> u64 \<Rightarrow> error option \<times> world \<times> Log" where
  "Log_Truncate w lg lowest =
     (case truncate_loop w (heap lg) lowest (segments lg) [] of
        (Inl e, w1, h1) \<Rightarrow> (Some e, w1, lg\<lparr>heap := h1\<rparr>)
      | (Inr segs, w1, h1) \<Rightarrow> (None, w1, lg\<lparr>heap := h1, segments := segs\<rparr>))"

text \<open>
  A caller that appends the records of a list one after the other and stops at the first
  error: successive appends, with the offsets they returned.
\<close>

fun Log_Appends ::
  "proto \<Rightarrow> world \<Rightarrow> Log \<Rightarrow> Record list \<Rightarrow> (error + u64 list) \<times> world \<times> Log" where
  "Log_Appends pb w lg [] = (Inr [], w, lg)"
| "Log_Appends pb w lg (r # rs) =
     (case Log_Append pb w lg r of
        (Inl e, w1, lg1) \<Rightarrow> (Inl e, w1, lg1)
      | (Inr off, w1, lg1) \<Rightarrow>
          (case Log_Appends pb w1 lg1 rs of
             (Inl e, w2, lg2) \<Rightarrow> (Inl e, w2, lg2)
           | (Inr offs, w2, lg2) \<Rightarrow> (Inr (off # offs), w2, lg2)))"

text \<open>The condition of the loop of \<open>Log.Read\<close>: the segment holds the offset.\<close>

definition holds :: "segment \<Rightarrow> u64 \<Rightarrow> bool" where
  "holds s off = (baseOffset s \<le> off \<and> off < nextOffset s)"




section \<open>Reference definitions and example states\<close>

text \<open>
  The value of a byte string read as a big-endian number, written from the
  specification's description of the file formats (\<open>u32 big-endian\<close>,
  \<open>u64 big-endian\<close>) and not from the source; \<open>Uint32\<close> and \<open>Uint64\<close> above are the
  source's decoders.
\<close>

definition big_endian :: "byte list \<Rightarrow> nat" where
  "big_endian bs = foldl (\<lambda>acc b. acc * 256 + unat b) 0 bs"

text \<open>Three indexes: no entry; one entry \<open>(0, 23)\<close>; a mapping shorter than \<open>size\<close>.\<close>

definition idx_empty :: index where
  "idx_empty = \<lparr>index_file = \<lparr>fname = ''0.index'', closed = False\<rparr>,
                mmap = replicate 24 0, index_size = 0\<rparr>"

definition idx_one :: index where
  "idx_one = \<lparr>index_file = \<lparr>fname = ''0.index'', closed = False\<rparr>,
              mmap = [0, 0, 0, 0, 0, 0, 0, 0, 0, 0, 0, 23] @ replicate 12 0, index_size = 12\<rparr>"

definition idx_short :: index where
  "idx_short = \<lparr>index_file = \<lparr>fname = ''0.index'', closed = False\<rparr>,
                mmap = [0, 0, 0, 0], index_size = 12\<rparr>"




text \<open>
  A stand-in for the protobuf serialisation in the example runs: the offset in 8 bytes,
  then the payload.
\<close>

definition pb_wire :: proto where
  "pb_wire = \<lparr>Marshal = (\<lambda>r. Some (PutUint64 (Offset r) @ Value r)),
              Unmarshal = (\<lambda>bs. if length bs < 8 then None
                                 else Some \<lparr>Value = drop 8 bs, Offset = Uint64 (take 8 bs)\<rparr>)\<rparr>"

text \<open>
  The configuration of the example runs: a store is full at 32 bytes, an index holds
  three entries. The record is the payload \<open>hello\<close>; its frame has 21 bytes.
\<close>

definition cfg_small :: Config where
  "cfg_small = \<lparr>MaxStoreBytes = 32, MaxIndexBytes = 36, InitialOffset = 0\<rparr>"

definition rec_hello :: Record where
  "rec_hello = \<lparr>Value = [104, 101, 108, 108, 111], Offset = 0\<rparr>"

text \<open>An empty directory where no call fails.\<close>

definition w_empty :: world where
  "w_empty = \<lparr>files = [], faults = []\<rparr>"

text \<open>
  An empty directory where the eighth call fails: the seven calls of \<open>NewLog\<close> succeed
  (\<open>ReadDir\<close>, and \<open>OpenFile\<close>, \<open>Stat\<close>, \<open>OpenFile\<close>, \<open>Stat\<close>, \<open>Truncate\<close>, \<open>Map\<close> of the first
  segment), the first write of the next append fails.
\<close>

definition w_faulty :: world where
  "w_faulty = \<lparr>files = [], faults = [None, None, None, None, None, None, None, Some 5]\<rparr>"

text \<open>
  The log after \<open>NewLog\<close> on the empty directory and one append, and after three appends
  (the second append fills the first segment, the third goes to a second segment).
\<close>

definition run_one :: "(error + u64 list) \<times> world \<times> Log" where
  "run_one = (case NewLog w_empty ''log'' cfg_small of
                (e, w, lg) \<Rightarrow> Log_Appends pb_wire w lg [rec_hello])"

definition w_one :: world where
  "w_one = fst (snd run_one)"

definition lg_one :: Log where
  "lg_one = snd (snd run_one)"

definition run_three :: "(error + u64 list) \<times> world \<times> Log" where
  "run_three = (case NewLog w_empty ''log'' cfg_small of
                  (e, w, lg) \<Rightarrow> Log_Appends pb_wire w lg [rec_hello, rec_hello, rec_hello])"

definition w_three :: world where
  "w_three = fst (snd run_three)"

definition lg_three :: Log where
  "lg_three = snd (snd run_three)"


section \<open>Bytes and words\<close>

lemma unat_byte_lt: "unat (b :: byte) < 256"
  using unsigned_less [of b, where ?'a = nat] by simp

lemma unat_ucast_byte32: "unat (ucast (b :: byte) :: u32) = unat b"
  using unat_byte_lt [of b] by (simp add: unsigned_ucast_eq take_bit_nat_eq_self)

lemma unat_ucast_byte64: "unat (ucast (b :: byte) :: u64) = unat b"
  using unat_byte_lt [of b] by (simp add: unsigned_ucast_eq take_bit_nat_eq_self)

lemma unat_step32: 
  assumes "unat (x :: u32) < 2 ^ 24"
  shows "unat (push_bit 8 x OR ucast (b :: byte)) = unat x * 256 + unat b"
proof -
  have "push_bit 8 x OR ucast b = push_bit 8 x + ucast b"
    by (rule disjunctive_add [symmetric]) (auto simp: bit_simps dest: bit_imp_le_length)
  also have "\<dots> = x * 256 + ucast b" by (simp add: push_bit_eq_mult)
  finally have e: "push_bit 8 x OR ucast b = x * 256 + ucast b" .
  have lt: "unat x * 256 + unat b < 2 ^ 32" using assms unat_byte_lt [of b] by simp
  have "unat (x * 256 + ucast b) = unat x * 256 + unat b"
    using lt by (simp add: unat_word_ariths unat_ucast_byte32)
  with e show ?thesis by simp
qed

lemma unat_step64: 
  assumes "unat (x :: u64) < 2 ^ 56"
  shows "unat (push_bit 8 x OR ucast (b :: byte)) = unat x * 256 + unat b"
proof -
  have "push_bit 8 x OR ucast b = push_bit 8 x + ucast b"
    by (rule disjunctive_add [symmetric]) (auto simp: bit_simps dest: bit_imp_le_length)
  also have "\<dots> = x * 256 + ucast b" by (simp add: push_bit_eq_mult)
  finally have e: "push_bit 8 x OR ucast b = x * 256 + ucast b" .
  have lt: "unat x * 256 + unat b < 2 ^ 64" using assms unat_byte_lt [of b] by simp
  have "unat (x * 256 + ucast b) = unat x * 256 + unat b"
    using lt by (simp add: unat_word_ariths unat_ucast_byte64)
  with e show ?thesis by simp
qed

lemma Uint32_horner:
  "Uint32 [a, b, c, d] =
     push_bit 8 (push_bit 8 (push_bit 8 (ucast a) OR ucast b) OR ucast c) OR ucast d"
  by (simp add: push_bit_or push_bit_push_bit or.commute or.left_commute)

lemma unat_Uint32: "unat (Uint32 [a, b, c, d]) = big_endian [a, b, c, d]"
proof -
  define x1 :: u32 where "x1 = ucast a"
  define x2 :: u32 where "x2 = push_bit 8 x1 OR ucast b"
  define x3 :: u32 where "x3 = push_bit 8 x2 OR ucast c"
  have 1: "unat x1 = unat a" by (simp add: x1_def unat_ucast_byte32)
  have 2: "unat x2 = unat a * 256 + unat b"
    unfolding x2_def using unat_byte_lt [of a] 1 by (subst unat_step32) simp_all
  have 3: "unat x3 = (unat a * 256 + unat b) * 256 + unat c"
    unfolding x3_def using unat_byte_lt [of a] unat_byte_lt [of b] 2 by (subst unat_step32) simp_all
  have 4: "unat (push_bit 8 x3 OR ucast d) = ((unat a * 256 + unat b) * 256 + unat c) * 256 + unat d"
    using unat_byte_lt [of a] unat_byte_lt [of b] unat_byte_lt [of c] 3 by (subst unat_step32) simp_all
  have "Uint32 [a, b, c, d] = push_bit 8 x3 OR ucast d"
    unfolding Uint32_horner x3_def x2_def x1_def ..
  with 4 show ?thesis by (simp add: big_endian_def)
qed

lemma unat_Uint64: "unat (Uint64 [a, b, c, d, e, f, g, h]) = big_endian [a, b, c, d, e, f, g, h]"
proof -
  define x1 :: u64 where "x1 = ucast a"
  define x2 :: u64 where "x2 = push_bit 8 x1 OR ucast b"
  define x3 :: u64 where "x3 = push_bit 8 x2 OR ucast c"
  define x4 :: u64 where "x4 = push_bit 8 x3 OR ucast d"
  define x5 :: u64 where "x5 = push_bit 8 x4 OR ucast e"
  define x6 :: u64 where "x6 = push_bit 8 x5 OR ucast f"
  define x7 :: u64 where "x7 = push_bit 8 x6 OR ucast g"
  note lt = unat_byte_lt [of a] unat_byte_lt [of b] unat_byte_lt [of c] unat_byte_lt [of d]
    unat_byte_lt [of e] unat_byte_lt [of f] unat_byte_lt [of g]
  have 1: "unat x1 = unat a" by (simp add: x1_def unat_ucast_byte64)
  have 2: "unat x2 = unat x1 * 256 + unat b" "unat x2 < 2 ^ 16"
    unfolding x2_def using lt 1 by (subst unat_step64; simp)+
  have 3: "unat x3 = unat x2 * 256 + unat c" "unat x3 < 2 ^ 24"
    unfolding x3_def using lt 2 by (subst unat_step64; simp)+
  have 4: "unat x4 = unat x3 * 256 + unat d" "unat x4 < 2 ^ 32"
    unfolding x4_def using lt 3 by (subst unat_step64; simp)+
  have 5: "unat x5 = unat x4 * 256 + unat e" "unat x5 < 2 ^ 40"
    unfolding x5_def using lt 4 by (subst unat_step64; simp)+
  have 6: "unat x6 = unat x5 * 256 + unat f" "unat x6 < 2 ^ 48"
    unfolding x6_def using lt 5 by (subst unat_step64; simp)+
  have 7: "unat x7 = unat x6 * 256 + unat g" "unat x7 < 2 ^ 56"
    unfolding x7_def using lt 6 by (subst unat_step64; simp)+
  have 8: "unat (push_bit 8 x7 OR ucast h) = unat x7 * 256 + unat h"
    using 7 by (subst unat_step64) simp_all
  have "Uint64 [a, b, c, d, e, f, g, h] = push_bit 8 x7 OR ucast h"
    unfolding x7_def x6_def x5_def x4_def x3_def x2_def x1_def
    by (simp add: push_bit_or push_bit_push_bit or.commute or.left_commute)
  with 8 show ?thesis by (simp add: big_endian_def 1 2 3 4 5 6 7)
qed

lemma Uint32_be: "length bs = 4 \<Longrightarrow> Uint32 bs = of_nat (big_endian bs)"
proof -
  assume "length bs = 4"
  then obtain a b c d where bs: "bs = [a, b, c, d]"
    by (auto simp: length_Suc_conv numeral_eq_Suc)
  have "Uint32 bs = of_nat (unat (Uint32 bs))" by simp
  then show ?thesis unfolding bs unat_Uint32 .
qed

lemma Uint64_be: "length bs = 8 \<Longrightarrow> Uint64 bs = of_nat (big_endian bs)"
proof -
  assume "length bs = 8"
  then obtain a b c d e f g h where bs: "bs = [a, b, c, d, e, f, g, h]"
    by (auto simp: length_Suc_conv numeral_eq_Suc)
  have "Uint64 bs = of_nat (unat (Uint64 bs))" by simp
  then show ?thesis unfolding bs unat_Uint64 .
qed


section \<open>Facts about the index\<close>

lemma unat_entry_pos:
  fixes out :: u32
  shows "unat ((ucast out :: u64) * entWidth) = 12 * unat out"
    and "unat ((ucast out :: u64) * entWidth + offWidth) = 12 * unat out + 4"
    and "unat ((ucast out :: u64) * entWidth + entWidth) = 12 * unat out + 12"
proof -
  have lt: "unat out < 2 ^ 32" using unsigned_less [of out, where ?'a = nat] by simp
  have u: "unat (ucast out :: u64) = unat out"
    using lt by (simp add: unsigned_ucast_eq take_bit_nat_eq_self)
  show p: "unat ((ucast out :: u64) * entWidth) = 12 * unat out"
    using lt by (simp add: entWidth_def offWidth_def posWidth_def unat_word_ariths u)
  show "unat ((ucast out :: u64) * entWidth + offWidth) = 12 * unat out + 4"
    using lt by (simp add: unat_word_ariths(1) p offWidth_def)
  show "unat ((ucast out :: u64) * entWidth + entWidth) = 12 * unat out + 12"
    using lt by (simp add: unat_word_ariths(1) p) (simp add: entWidth_def offWidth_def posWidth_def)
qed

lemma index_Read_eq:
  "index_Read i n =
     (if index_size i = 0 then Inl EOF
      else let k = unat ((if n = - 1 then ucast (index_size i div 12 - 1) else ucast n) :: u32)
           in if unat (index_size i) < 12 * k + 12 then Inl EOF
              else if length (mmap i) < 12 * k + 12 then Inl Panic
              else Inr (Uint32 (take 4 (drop (12 * k) (mmap i))),
                        Uint64 (take 8 (drop (12 * k + 4) (mmap i)))))"
proof -
  have e: "entWidth = 12" by (simp add: entWidth_def offWidth_def posWidth_def)
  show ?thesis
    unfolding index_Read_def Let_def
    by (simp add: word_less_nat_alt unat_entry_pos slice_def) (simp add: e)
qed

lemma index_Write_ok:
  assumes "unat (index_size i) + 12 \<le> length (mmap i)" "length (mmap i) < 2 ^ 63"
  shows "index_Write i off pos = (None, i\<lparr>mmap := take (unat (index_size i)) (mmap i) @ PutUint32 off @ PutUint64 pos @ drop (unat (index_size i) + 12) (mmap i), index_size := index_size i + 12\<rparr>)"
proof -
  have a: "unat (index_size i + 4) = unat (index_size i) + 4" using assms by (simp add: unat_word_ariths)
  have b: "unat (index_size i + 12) = unat (index_size i) + 12" using assms by (simp add: unat_word_ariths)
  have c: "\<not> (of_nat (length (mmap i)) :: u64) < index_size i + 12"
    using assms b by (simp add: word_less_nat_alt unat_of_nat)
  show ?thesis using assms a b c
    by (auto simp: index_Write_def entWidth_def offWidth_def posWidth_def slice_put_def PutUint32_def PutUint64_def add.commute)
qed

lemma entry_bytes_kept:
  assumes "p + m \<le> sz" "sz \<le> length xs"
  shows "take m (drop p (take sz xs @ ys)) = take m (drop p xs)"
proof -
  have "drop p (take sz xs @ ys) = drop p (take sz xs) @ ys"
    using assms by simp
  moreover have "length (drop p (take sz xs)) = sz - p"
    using assms by simp
  ultimately have "take m (drop p (take sz xs @ ys)) = take m (drop p (take sz xs))"
    using assms by simp
  also have "\<dots> = take m (take (sz - p) (drop p xs))"
    by (simp add: drop_take)
  also have "\<dots> = take m (drop p xs)"
    using assms by (simp add: min_absorb1)
  finally show ?thesis .
qed



section \<open>Evaluating the example runs\<close>

lemmas os_defs = oscall_def content_def os_OpenFile_def os_Stat_def resize_def os_Truncate_def
  os_Remove_def ioutil_ReadDir_def File_Write_def File_ReadAt_def File_Sync_def
  File_Truncate_def File_Close_def gommap_Map_def mmap_Sync_def

lemmas store_defs = lenWidth_def buf_Write_def buf_Flush_def newStore_def store_Append_def
  maxAlloc_def store_Read_def store_Close_def store_Name_def PutUint64_def PutUint32_def

lemmas index_defs = offWidth_def posWidth_def entWidth_def newIndex_def index_Close_def
  index_Read_def index_Write_def index_Name_def slice_def slice_put_def

lemmas segment_defs = digit_char_def fmt_d.simps store_path_def index_path_def newSegment_def
  segment_Append_def segment_Read_def IsMaxed_def segment_Close_def segment_Remove_def

lemmas log_defs = path_Ext_def strings_TrimSuffix_def is_digit_def strconv_ParseUint_def
  Log_newSegment_def Log_setup_def NewLog_def Log_Append_def find_segment_def
  out_of_range_def Log_Read_def Log_Close_def Log_LowestOffset_def Log_HighestOffset_def
  Log_Truncate_def

lemmas example_defs = pb_wire_def cfg_small_def rec_hello_def w_empty_def w_faulty_def
  run_one_def w_one_def lg_one_def run_three_def w_three_def lg_three_def

lemmas run_defs = os_defs store_defs index_defs segment_defs log_defs example_defs Let_def
  word_sless_alt word_sle_eq


lemma lg_one_eval:
  "fst run_one = Inr [0] \<and> segments lg_one = [0] \<and> activeSegment lg_one = Some 0
   \<and> baseOffset (heap lg_one ! 0) = 0 \<and> nextOffset (heap lg_one ! 0) = 1"
  by (simp add: run_defs)

lemma lg_three_eval:
  "fst run_three = Inr [0, 1, 2] \<and> segments lg_three = [0, 1]
   \<and> activeSegment lg_three = Some 1
   \<and> baseOffset (heap lg_three ! 0) = 0 \<and> nextOffset (heap lg_three ! 0) = 2
   \<and> baseOffset (heap lg_three ! 1) = 2 \<and> nextOffset (heap lg_three ! 1) = 3"
  by (simp add: run_defs)



section \<open>Facts about the log\<close>

lemma foldl_find:
  "foldl (\<lambda>s a. if P a then Some a else s) acc as =
     (case filter P as of [] \<Rightarrow> acc | _ \<Rightarrow> Some (last (filter P as)))"
  by (induction as arbitrary: acc) (auto split: list.splits)

lemma find_segment_eq:
  "find_segment lg off =
     (case filter (\<lambda>a. holds (heap lg ! a) off) (segments lg) of
        [] \<Rightarrow> None
      | _ \<Rightarrow> Some (last (filter (\<lambda>a. holds (heap lg ! a) off) (segments lg))))"
  unfolding find_segment_def holds_def by (rule foldl_find)

lemma find_segment_None:
  "find_segment lg off = None \<longleftrightarrow> (\<forall>a \<in> set (segments lg). \<not> holds (heap lg ! a) off)"
proof -
  let ?f = "filter (\<lambda>a. holds (heap lg ! a) off) (segments lg)"
  have "find_segment lg off = None \<longleftrightarrow> ?f = []"
    by (simp add: find_segment_eq split: list.splits)
  then show ?thesis by (simp add: filter_empty_conv)
qed

lemma find_segment_Some:
  assumes "find_segment lg off = Some a"
  shows "a \<in> set (segments lg) \<and> holds (heap lg ! a) off"
proof -
  let ?f = "filter (\<lambda>a. holds (heap lg ! a) off) (segments lg)"
  from assms have ne: "?f \<noteq> []" and a: "a = last ?f"
    by (auto simp: find_segment_eq split: list.splits)
  from ne have "last ?f \<in> set ?f" by (rule last_in_set)
  with a show ?thesis by simp
qed

lemma store_Read_not_Errorf: "fst (store_Read w s pos) \<noteq> Inl (Errorf m)"
  by (auto simp: store_Read_def buf_Flush_def File_ReadAt_def File_Write_def Let_def
           split: option.splits prod.splits sum.splits if_splits)

lemma index_Read_not_Errorf: "index_Read i n \<noteq> Inl (Errorf m)"
  by (auto simp: index_Read_def Let_def split: option.splits)

lemma segment_Read_not_Errorf: "fst (segment_Read pb w s off) \<noteq> Inl (Errorf m)"
proof (cases "index_Read (index s) (off - baseOffset s)")
  case (Inl e)
  then show ?thesis
    using index_Read_not_Errorf [of "index s" "off - baseOffset s" m]
    by (auto simp: segment_Read_def)
next
  case (Inr p)
  obtain r w1 st1 where sr: "store_Read w (store s) (snd p) = (r, w1, st1)"
    by (cases "store_Read w (store s) (snd p)") auto
  with store_Read_not_Errorf [of w "store s" "snd p" m] have "r \<noteq> Inl (Errorf m)" by simp
  with Inr sr show ?thesis
    by (cases p) (auto simp: segment_Read_def split: option.splits sum.splits)
qed

lemma Log_Read_out_of_range_iff:
  "fst (Log_Read pb w lg off) = Inl (out_of_range off)
     \<longleftrightarrow> (\<forall>a \<in> set (segments lg). \<not> holds (heap lg ! a) off)"
proof (cases "find_segment lg off")
  case None
  then show ?thesis using find_segment_None [of lg off] by (simp add: Log_Read_def)
next
  case (Some a)
  from find_segment_Some [OF Some] have a: "a \<in> set (segments lg)" "holds (heap lg ! a) off"
    by simp_all
  then have "\<not> nextOffset (heap lg ! a) \<le> off" by (auto simp: holds_def)
  then have "fst (Log_Read pb w lg off) = fst (segment_Read pb w (heap lg ! a) off)"
    using Some by (simp add: Log_Read_def split: prod.splits)
  then have "fst (Log_Read pb w lg off) \<noteq> Inl (out_of_range off)"
    using segment_Read_not_Errorf by (simp add: out_of_range_def)
  with a show ?thesis by auto
qed






lemma HighestOffset_value:
  "segments lg \<noteq> [] \<Longrightarrow>
   Log_HighestOffset lg =
     Inr (if nextOffset (heap lg ! last (segments lg)) = 0 then 0
          else nextOffset (heap lg ! last (segments lg)) - 1)"
  by (simp add: Log_HighestOffset_def last_conv_nth Let_def)

lemma Log_Read_beyond_highest:
  assumes hi: "Log_HighestOffset lg = Inr hi"
    and ord: "\<forall>a \<in> set (segments lg).
                nextOffset (heap lg ! a) \<le> nextOffset (heap lg ! last (segments lg))"
    and k: "1 \<le> k" "unat hi + k < 2 ^ 64"
  shows "fst (Log_Read pb w lg (hi + of_nat k)) = Inl (out_of_range (hi + of_nat k))"
    and "unat (hi + of_nat k) = unat hi + k"
proof -
  let ?n = "nextOffset (heap lg ! last (segments lg))"
  have ne: "segments lg \<noteq> []" using hi by (auto simp: Log_HighestOffset_def)
  from hi HighestOffset_value [OF ne] have h: "hi = (if ?n = 0 then 0 else ?n - 1)" by simp
  have n: "unat ?n \<le> unat hi + 1"
  proof (cases "?n = 0")
    case True then show ?thesis by simp
  next
    case False
    then have "unat ?n \<noteq> 0" by (simp add: unat_eq_0)
    with False h show ?thesis by (simp add: unat_minus_one)
  qed
  have ku: "unat (of_nat k :: u64) = k" using k(2) by (simp add: unat_of_nat)
  show u: "unat (hi + of_nat k) = unat hi + k"
    using k(2) by (simp add: unat_word_ariths ku)
  have "\<not> holds (heap lg ! a) (hi + of_nat k)" if "a \<in> set (segments lg)" for a
  proof -
    from ord that have "unat (nextOffset (heap lg ! a)) \<le> unat ?n"
      by (auto simp: word_le_nat_alt)
    with n k(1) u show ?thesis by (simp add: holds_def word_less_nat_alt)
  qed
  then show "fst (Log_Read pb w lg (hi + of_nat k)) = Inl (out_of_range (hi + of_nat k))"
    by (simp add: Log_Read_out_of_range_iff)
qed


section \<open>Facts about appends where no call fails\<close>
















section \<open>The claims about the store and the index\<close>



text \<open>
  Claim C8, as amended. \<open>index.Read(in)\<close> fails with \<open>io.EOF\<close> when \<open>size = 0\<close>.
  Otherwise the entry index is \<open>uint32(size / 12 - 1)\<close> when \<open>in\<close> is \<open>-1\<close> and
  \<open>uint32(in)\<close> when it is not; the call fails with the same \<open>io.EOF\<close> when
  \<open>size < index * 12 + 12\<close>, panics when the mapping does not hold these 12 bytes, and
  otherwise returns the pair of the big-endian numbers in the 4 bytes and in the 8 bytes
  of that entry.
\<close>

theorem index_Read_cases:
  "index_Read i n =
     (if index_size i = 0 then Inl EOF
      else let k = unat ((if n = - 1 then ucast (index_size i div 12 - 1) else ucast n) :: u32)
           in if unat (index_size i) < 12 * k + 12 then Inl EOF
              else if length (mmap i) < 12 * k + 12 then Inl Panic
              else Inr (of_nat (big_endian (take 4 (drop (12 * k) (mmap i)))),
                        of_nat (big_endian (take 8 (drop (12 * k + 4) (mmap i))))))"
  unfolding index_Read_eq Let_def
  by (simp add: Uint32_be Uint64_be)

theorem index_Read_cases_witness:
  "index_Read idx_one (- 1) = Inr (0, 23) \<and> index_Read idx_one 0 = Inr (0, 23)
   \<and> index_Read idx_one 1 = Inl EOF \<and> index_Read idx_empty (- 1) = Inl EOF"
  using index_Read_cases [of idx_one "- 1"] index_Read_cases [of idx_one 0]
    index_Read_cases [of idx_one 1] index_Read_cases [of idx_empty "- 1"]
  by (simp add: idx_one_def idx_empty_def big_endian_def)

text \<open>
  Claim C8 as it was stated fails: the empty index and the entry out of range give the
  same error value, not two kinds; index \<open>2^32\<close> is read as entry 0 although
  \<open>size < 2^32 * 12 + 12\<close>; and an entry within \<open>size\<close> that the mapping does not
  hold is a panic.
\<close>

theorem index_Read_kinds_counterexample:
  "index_Read idx_empty 0 = Inl EOF \<and> index_Read idx_one 1 = Inl EOF
   \<and> index_size idx_one < 4294967296 * 12 + 12 \<and> index_Read idx_one 4294967296 = Inr (0, 23)
   \<and> \<not> index_size idx_short < 0 * 12 + 12 \<and> index_Read idx_short 0 = Inl Panic"
  by (simp add: index_Read_eq idx_one_def idx_empty_def idx_short_def)

text \<open>
  Claim C10. For every index whose \<open>size\<close> is a multiple of 12 and whose mapping has at
  least \<open>size + 12\<close> bytes (its length is a Go \<open>int\<close>, below \<open>2^63\<close>),
  \<open>index.Write(relOff, pos)\<close> succeeds, changes no byte outside \<open>[size, size + 12)\<close>,
  advances \<open>size\<close> by 12, and a read of any entry \<open>n < size / 12\<close> returns afterwards the
  pair it returned before.
\<close>

theorem index_Write_frame:
  assumes "12 dvd unat (index_size i)"
    and "unat (index_size i) + 12 \<le> length (mmap i)"
    and "length (mmap i) < 2 ^ 63"
  shows "\<exists>i'. index_Write i off pos = (None, i')
            \<and> index_size i' = index_size i + 12
            \<and> length (mmap i') = length (mmap i)
            \<and> (\<forall>j < length (mmap i). j < unat (index_size i) \<or> unat (index_size i) + 12 \<le> j
                    \<longrightarrow> mmap i' ! j = mmap i ! j)
            \<and> (\<forall>n. 0 \<le>s n \<and> unat n < unat (index_size i) div 12
                    \<longrightarrow> index_Read i' n = index_Read i n \<and> (\<exists>e. index_Read i n = Inr e))"
proof -
  let ?sz = "unat (index_size i)"
  let ?new = "PutUint32 off @ PutUint64 pos @ drop (?sz + 12) (mmap i)"
  let ?i' = "i\<lparr>mmap := take ?sz (mmap i) @ ?new, index_size := index_size i + 12\<rparr>"
  have w: "index_Write i off pos = (None, ?i')"
    using assms(2,3) by (rule index_Write_ok)
  have len: "length (mmap ?i') = length (mmap i)"
    using assms(2) by (simp add: PutUint32_def PutUint64_def)
  have sz': "unat (index_size i + 12) = ?sz + 12"
    using assms(2,3) by (simp add: unat_word_ariths)
  have bytes: "mmap ?i' ! j = mmap i ! j"
    if "j < length (mmap i)" "j < ?sz \<or> ?sz + 12 \<le> j" for j
  proof (cases "j < ?sz")
    case True
    with assms(2) show ?thesis by (simp add: nth_append)
  next
    case False
    with that have j: "?sz + 12 \<le> j" by simp
    with that(1) assms(2) show ?thesis
      by (simp add: nth_append PutUint32_def PutUint64_def nth_Cons' add.commute)
  qed
  have reads: "index_Read ?i' n = index_Read i n \<and> (\<exists>e. index_Read i n = Inr e)"
    if n: "0 \<le>s n" "unat n < ?sz div 12" for n
  proof -
    define k where "k = unat (ucast n :: u32)"
    have nn: "n \<noteq> - 1" using n(1) by (auto simp: word_sle_eq)
    note un = n(2)
    have "k \<le> unat n" unfolding k_def
      by (simp add: unsigned_ucast_eq take_bit_eq_mod)
    with un have k: "12 * k + 12 \<le> ?sz" by simp
    have nz: "index_size i \<noteq> 0" using un by (auto simp: unat_eq_0)
    have nz': "index_size i + 12 \<noteq> 0" using sz' by (auto simp: unat_eq_0 simp del: unat_eq_zero)
    have r: "index_Read i n = Inr (Uint32 (take 4 (drop (12 * k) (mmap i))),
                                   Uint64 (take 8 (drop (12 * k + 4) (mmap i))))"
      using k assms(2) nn nz by (simp add: index_Read_eq k_def Let_def)
    have r': "index_Read ?i' n = Inr (Uint32 (take 4 (drop (12 * k) (mmap ?i'))),
                                   Uint64 (take 8 (drop (12 * k + 4) (mmap ?i'))))"
      using k assms(2) nn nz' sz' len by (simp add: index_Read_eq k_def Let_def)
    have m': "mmap ?i' = take ?sz (mmap i) @ ?new" by simp
    have "take 4 (drop (12 * k) (mmap ?i')) = take 4 (drop (12 * k) (mmap i))"
      unfolding m' by (rule entry_bytes_kept) (use k assms(2) in simp_all)
    moreover have "take 8 (drop (12 * k + 4) (mmap ?i')) = take 8 (drop (12 * k + 4) (mmap i))"
      unfolding m' by (rule entry_bytes_kept) (use k assms(2) in simp_all)
    ultimately show ?thesis using r r' by simp
  qed
  show ?thesis
    using w len bytes reads by (intro exI [of _ ?i']) simp
qed

theorem index_Write_frame_witness:
  "\<exists>i'. index_Write idx_one 1 50 = (None, i') \<and> index_size i' = 24
        \<and> index_Read i' 0 = Inr (0, 23)"
proof -
  have h1: "12 dvd unat (index_size idx_one)" by (simp add: idx_one_def)
  have h2: "unat (index_size idx_one) + 12 \<le> length (mmap idx_one)" by (simp add: idx_one_def)
  have h3: "length (mmap idx_one) < 2 ^ 63" by (simp add: idx_one_def)
  have h4: "0 \<le>s (0 :: i64) \<and> unat (0 :: i64) < unat (index_size idx_one) div 12"
    by (simp add: idx_one_def)
  have r: "index_Read idx_one 0 = Inr (0, 23)"
    by (simp add: index_Read_eq idx_one_def)
  from index_Write_frame [OF h1 h2 h3, of 1 50] obtain i' where
    "index_Write idx_one 1 50 = (None, i')" "index_size i' = index_size idx_one + 12"
    "\<forall>n. 0 \<le>s n \<and> unat n < unat (index_size idx_one) div 12
          \<longrightarrow> index_Read i' n = index_Read idx_one n \<and> (\<exists>e. index_Read idx_one n = Inr e)"
    by blast
  with h4 r show ?thesis by (auto simp: idx_one_def)
qed


section \<open>The claims about the log\<close>

text \<open>
  Claim C5. \<open>Log.Read(offset)\<close> fails with the error
  \<open>offset out of range: n\<close> if and only if no segment of the list satisfies
  \<open>baseOffset \<le> offset < nextOffset\<close>. In particular, when \<open>HighestOffset\<close> returns \<open>hi\<close>
  and no segment of the list ends beyond the last one, \<open>Read(hi + k)\<close> fails with that
  error for every \<open>k \<ge> 1\<close> (with \<open>hi + k\<close> an offset, that is, below \<open>2^64\<close>).
\<close>

theorem Log_Read_out_of_range:
  "(fst (Log_Read pb w lg off) = Inl (Errorf (''offset out of range: '' @ fmt_d (unat off)))
      \<longleftrightarrow> \<not> (\<exists>a \<in> set (segments lg).
                 baseOffset (heap lg ! a) \<le> off \<and> off < nextOffset (heap lg ! a)))
   \<and> (Log_HighestOffset lg = Inr hi
        \<and> (\<forall>a \<in> set (segments lg).
               nextOffset (heap lg ! a) \<le> nextOffset (heap lg ! last (segments lg)))
        \<and> 1 \<le> k \<and> unat hi + k < 2 ^ 64
      \<longrightarrow> fst (Log_Read pb w lg (hi + of_nat k))
            = Inl (Errorf (''offset out of range: '' @ fmt_d (unat hi + k))))"
proof (intro conjI impI)
  show "fst (Log_Read pb w lg off) = Inl (Errorf (''offset out of range: '' @ fmt_d (unat off)))
      \<longleftrightarrow> \<not> (\<exists>a \<in> set (segments lg).
                 baseOffset (heap lg ! a) \<le> off \<and> off < nextOffset (heap lg ! a))"
    using Log_Read_out_of_range_iff [of pb w lg off] by (simp add: out_of_range_def holds_def)
next
  assume "Log_HighestOffset lg = Inr hi
        \<and> (\<forall>a \<in> set (segments lg).
               nextOffset (heap lg ! a) \<le> nextOffset (heap lg ! last (segments lg)))
        \<and> 1 \<le> k \<and> unat hi + k < 2 ^ 64"
  then have hi: "Log_HighestOffset lg = Inr hi"
    and ord: "\<forall>a \<in> set (segments lg).
               nextOffset (heap lg ! a) \<le> nextOffset (heap lg ! last (segments lg))"
    and k: "1 \<le> k" "unat hi + k < 2 ^ 64"
    by simp_all
  have "fst (Log_Read pb w lg (hi + of_nat k)) = Inl (out_of_range (hi + of_nat k))"
    and "unat (hi + of_nat k) = unat hi + k"
    by (rule Log_Read_beyond_highest [OF hi ord k])+
  then show "fst (Log_Read pb w lg (hi + of_nat k))
            = Inl (Errorf (''offset out of range: '' @ fmt_d (unat hi + k)))"
    by (simp add: out_of_range_def)
qed

theorem Log_Read_out_of_range_witness:
  "fst (Log_Read pb_wire w_one lg_one 1) = Inl (Errorf ''offset out of range: 1'')
   \<and> fst (Log_Read pb_wire w_one lg_one 0) \<noteq> Inl (Errorf ''offset out of range: 0'')"
proof -
  have h: "Log_HighestOffset lg_one = Inr 0
        \<and> (\<forall>a \<in> set (segments lg_one).
               nextOffset (heap lg_one ! a) \<le> nextOffset (heap lg_one ! last (segments lg_one)))
        \<and> (1 :: nat) \<le> 1 \<and> unat (0 :: u64) + 1 < 2 ^ 64"
    using lg_one_eval by (simp add: Log_HighestOffset_def)
  have c: "\<exists>a \<in> set (segments lg_one).
             baseOffset (heap lg_one ! a) \<le> 0 \<and> 0 < nextOffset (heap lg_one ! a)"
    using lg_one_eval by simp
  from Log_Read_out_of_range [of pb_wire w_one lg_one 0 0 1] h c
  show ?thesis by (simp add: digit_char_def fmt_d.simps)
qed



text \<open>
  Claim C9. For every log with at least one segment, \<open>HighestOffset\<close> returns 0 when the
  \<open>nextOffset\<close> of the last segment is 0, and that \<open>nextOffset\<close> minus 1 otherwise.
\<close>

theorem Log_HighestOffset_value:
  assumes "segments lg \<noteq> []"
  shows "Log_HighestOffset lg =
           Inr (if nextOffset (heap lg ! last (segments lg)) = 0 then 0
                else nextOffset (heap lg ! last (segments lg)) - 1)"
  using assms by (rule HighestOffset_value)

theorem Log_HighestOffset_value_witness:
  "segments lg_three \<noteq> [] \<and> Log_HighestOffset lg_three = Inr 2"
proof -
  have h: "segments lg_three \<noteq> []" using lg_three_eval by simp
  from Log_HighestOffset_value [OF h] lg_three_eval show ?thesis by simp
qed

text \<open>
  Claim C4 at its failing input: the log with one segment that holds offset 0.
  \<open>Truncate(0)\<close> removes that segment, closes it and deletes its files; the list of
  segments is empty afterwards, and \<open>activeSegment\<close> still points to the removed segment.
\<close>

theorem Truncate_leaves_active_dangling:
  "segments lg_one = [0] \<and> activeSegment lg_one = Some 0
   \<and> fst (Log_Truncate w_one lg_one 0) = None
   \<and> segments (snd (snd (Log_Truncate w_one lg_one 0))) = []
   \<and> activeSegment (snd (snd (Log_Truncate w_one lg_one 0))) = Some 0
   \<and> files (fst (snd (Log_Truncate w_one lg_one 0))) = []"
  by (simp add: run_defs)








end
